theory Spec2Isabelle
  imports Complex_Main "HOL-Library.Multiset"
begin

section \<open>Betting analyzer: data model\<close>

text \<open>
  The development embeds \<^verbatim>\<open>src/betting_analyzer.py\<close> (class \<^verbatim>\<open>BettingAnalyzer\<close>).
  Python floats are modelled as exact reals, so every statement about odds, probabilities
  and scores is a statement of exact arithmetic; rounding of IEEE doubles, infinities and
  NaN are outside the model. Python ints are \<open>int\<close>.
\<close>

datatype py_error = KeyError | IndexError | ValueError | ZeroDivisionError

text \<open>
  An odds dictionary is only ever read by key (\<^verbatim>\<open>odds.get(k, d)\<close>, \<^verbatim>\<open>odds[k]\<close>), so it
  is a partial map from key to price. A probability dictionary is also iterated
  (\<^verbatim>\<open>probs.items()\<close>, \<^verbatim>\<open>for key in probs\<close>), which follows insertion order, so it is an
  association list in insertion order.
\<close>

type_synonym odds_dict = "string \<rightharpoonup> real"

type_synonym probs_dict = "(string \<times> real) list"

record analyzer =
  min_odds :: real
  max_odds :: real

definition create_betting_analyzer :: analyzer where
  "create_betting_analyzer = \<lparr>min_odds = 1.5, max_odds = 5.0\<rparr>"

definition dict_get :: "('k \<rightharpoonup> 'v) \<Rightarrow> 'k \<Rightarrow> 'v \<Rightarrow> 'v" where
  \<comment> \<open>\<^verbatim>\<open>d.get(k, default)\<close>\<close>
  "dict_get d k dflt = (case d k of None \<Rightarrow> dflt | Some v \<Rightarrow> v)"

definition dict_index :: "('k \<rightharpoonup> 'v) \<Rightarrow> 'k \<Rightarrow> py_error + 'v" where
  \<comment> \<open>\<^verbatim>\<open>d[k]\<close>, which raises KeyError on a missing key\<close>
  "dict_index d k = (case d k of None \<Rightarrow> Inl KeyError | Some v \<Rightarrow> Inr v)"

section \<open>Implied probabilities\<close>

text \<open>
  \<^verbatim>\<open>_calculate_probabilities\<close>: the three guarded blocks, in the order home, away, draw,
  each appending its key to \<^verbatim>\<open>probs\<close> and adding to \<^verbatim>\<open>total_prob\<close>; then the
  normalisation loop. Inside a guarded block \<^verbatim>\<open>odds[k]\<close> is the value \<^verbatim>\<open>odds.get(k, 0)\<close>
  just tested positive, so neither KeyError nor a division by zero can occur.
\<close>

definition raw_block :: "odds_dict \<Rightarrow> string \<Rightarrow> probs_dict \<times> real \<Rightarrow> probs_dict \<times> real" where
  "raw_block odds k st =
     (if dict_get odds k 0 > 0
      then (fst st @ [(k, 1 / dict_get odds k 0)], snd st + 1 / dict_get odds k 0)
      else st)"

definition raw_probabilities :: "odds_dict \<Rightarrow> probs_dict \<times> real" where
  "raw_probabilities odds =
     raw_block odds ''draw'' (raw_block odds ''away'' (raw_block odds ''home'' ([], 0)))"

definition calculate_probabilities :: "odds_dict \<Rightarrow> probs_dict" where
  "calculate_probabilities odds =
     (let (probs, total_prob) = raw_probabilities odds
      in if total_prob > 0
         then map (\<lambda>(key, p). (key, p / total_prob)) probs
         else probs)"

section \<open>Selecting the best bet\<close>

text \<open>
  An entry of \<^verbatim>\<open>options\<close> in \<^verbatim>\<open>_analyze_best_bet\<close>. The source adds the key
  \<^verbatim>\<open>combined_score\<close> in a second loop over the list just built; nothing reads the options
  between the two loops, so the field is filled when the option is built.
\<close>

record bet_option =
  opt_type :: string
  opt_team :: string
  opt_odds :: real
  opt_probability :: real
  opt_value_score :: real
  opt_recommendation :: string
  combined_score :: real

text \<open>The dictionary returned by \<^verbatim>\<open>_analyze_best_bet\<close>.\<close>

record best_bet =
  bet_recommendation :: string
  recommended_odds :: real
  probability :: real
  value_score :: real
  bet_type :: string

definition probs_get :: "probs_dict \<Rightarrow> string \<Rightarrow> real \<Rightarrow> real" where
  "probs_get probs k dflt = dict_get (map_of probs) k dflt"

definition make_option :: "odds_dict \<Rightarrow> probs_dict \<Rightarrow> string \<Rightarrow> string \<Rightarrow> string \<Rightarrow> bet_option" where
  "make_option odds probs k team reco =
     (let value_score = (probs_get probs k 0 * dict_get odds k 0) - 1
      in \<lparr>opt_type = k, opt_team = team, opt_odds = dict_get odds k 0,
          opt_probability = probs_get probs k 0, opt_value_score = value_score,
          opt_recommendation = reco,
          combined_score = (probs_get probs k 0 * 0.6) + (max 0 value_score * 0.4)\<rparr>)"

definition build_options :: "odds_dict \<Rightarrow> probs_dict \<Rightarrow> string \<Rightarrow> string \<Rightarrow> bet_option list" where
  "build_options odds probs home_team away_team =
     (if dict_get odds ''home'' 0 > 0
      then [make_option odds probs ''home'' home_team (''Victoire '' @ home_team)] else [])
     @ (if dict_get odds ''away'' 0 > 0
      then [make_option odds probs ''away'' away_team (''Victoire '' @ away_team)] else [])
     @ (if dict_get odds ''draw'' 0 > 0
      then [make_option odds probs ''draw'' ''Match nul'' ''Match nul''] else [])"

text \<open>
  Python's \<^verbatim>\<open>max(xs, key=f)\<close> on a non-empty list: the running best is replaced only by
  an element with a strictly greater key, so the first maximal element is returned.
\<close>

fun py_max_key :: "('a \<Rightarrow> real) \<Rightarrow> 'a \<Rightarrow> 'a list \<Rightarrow> 'a" where
  "py_max_key f best [] = best"
| "py_max_key f best (x # xs) = py_max_key f (if f x > f best then x else best) xs"

definition analyze_best_bet :: "odds_dict \<Rightarrow> probs_dict \<Rightarrow> string \<Rightarrow> string \<Rightarrow> best_bet" where
  "analyze_best_bet odds probs home_team away_team =
     (case build_options odds probs home_team away_team of
        option # options \<Rightarrow>
          (let best_option = py_max_key combined_score option options
           in \<lparr>bet_recommendation = opt_recommendation best_option,
               recommended_odds = opt_odds best_option,
               probability = opt_probability best_option,
               value_score = opt_value_score best_option,
               bet_type = opt_type best_option\<rparr>)
      | [] \<Rightarrow>
          \<lparr>bet_recommendation = ''Victoire '' @ home_team,
           recommended_odds = dict_get odds ''home'' 2.0,
           probability = probs_get probs ''home'' 0.4,
           value_score = 0,
           bet_type = ''home''\<rparr>)"

section \<open>Confidence\<close>

text \<open>Python's \<^verbatim>\<open>int(x)\<close> on a float truncates towards zero.\<close>

definition py_int :: "real \<Rightarrow> int" where
  "py_int x = (if x \<ge> 0 then \<lfloor>x\<rfloor> else \<lceil>x\<rceil>)"

text \<open>
  \<^verbatim>\<open>_calculate_enhanced_confidence\<close>; each \<open>let\<close> is one of the source's updates of
  \<^verbatim>\<open>base_confidence\<close>, in order. The parameter \<^verbatim>\<open>odds\<close> is not read.
\<close>

definition calculate_enhanced_confidence :: "best_bet \<Rightarrow> odds_dict \<Rightarrow> bool \<Rightarrow> int" where
  "calculate_enhanced_confidence analysis odds is_value =
     (let base_confidence = probability analysis * 100;
          base_confidence = (if is_value then base_confidence + 10 else base_confidence);
          recommended_odds = recommended_odds analysis;
          base_confidence = (if recommended_odds < 1.5 then base_confidence + 20
                             else if recommended_odds > 4.0 then base_confidence - 15
                             else base_confidence);
          base_confidence = (if value_score analysis > 0.1 then base_confidence + 15
                             else if value_score analysis < - 0.1 then base_confidence - 10
                             else base_confidence)
      in max 0 (min 100 (py_int base_confidence)))"

section \<open>Value bets\<close>

text \<open>
  \<^verbatim>\<open>_is_value_bet\<close> iterates \<^verbatim>\<open>probs.items()\<close> and returns at the first qualifying
  entry. The chained comparison reads \<^verbatim>\<open>odds[outcome]\<close> before it looks at the
  probability, so a key of \<^verbatim>\<open>probs\<close> that is missing in \<^verbatim>\<open>odds\<close> raises KeyError.
\<close>

fun is_value_bet :: "analyzer \<Rightarrow> odds_dict \<Rightarrow> probs_dict \<Rightarrow> py_error + bool" where
  "is_value_bet self odds [] = Inr False"
| "is_value_bet self odds ((outcome, prob) # rest) =
     (if outcome = ''home'' then
        (case dict_index odds ''home'' of
           Inl e \<Rightarrow> Inl e
         | Inr v \<Rightarrow> if min_odds self \<le> v \<and> v \<le> max_odds self \<and> prob > 0.3
                    then Inr True else is_value_bet self odds rest)
      else if outcome = ''away'' then
        (case dict_index odds ''away'' of
           Inl e \<Rightarrow> Inl e
         | Inr v \<Rightarrow> if min_odds self \<le> v \<and> v \<le> max_odds self \<and> prob > 0.3
                    then Inr True else is_value_bet self odds rest)
      else if outcome = ''draw'' then
        (case dict_index odds ''draw'' of
           Inl e \<Rightarrow> Inl e
         | Inr v \<Rightarrow> if min_odds self \<le> v \<and> v \<le> max_odds self \<and> prob > 0.25
                    then Inr True else is_value_bet self odds rest)
      else is_value_bet self odds rest)"

section \<open>Reading the odds back out of the recommendation text\<close>

text \<open>
  \<^verbatim>\<open>s.split(sep)\<close> for a non-empty separator: the pieces between the non-overlapping
  occurrences of \<^verbatim>\<open>sep\<close>, found from the left. \<open>cur\<close> holds the current piece, reversed.
\<close>

function split_from :: "string \<Rightarrow> string \<Rightarrow> string \<Rightarrow> string list" where
  "split_from sep cur [] = [rev cur]"
| "split_from sep cur (c # cs) =
     (if sep \<noteq> [] \<and> take (length sep) (c # cs) = sep
      then rev cur # split_from sep [] (drop (length sep - 1) cs)
      else split_from sep (c # cur) cs)"
  by pat_completeness auto
termination
  by (relation "measure (\<lambda>(sep, cur, s). length s)") auto

definition py_split :: "string \<Rightarrow> string \<Rightarrow> string list" where
  "py_split s sep = split_from sep [] s"

text \<open>
  \<^verbatim>\<open>float(s)\<close> on a string, for the decimal literals of Python's grammar: surrounding
  whitespace is stripped, then an optional sign, digits with an optional fraction (or a
  fraction alone), and an optional exponent; single underscores may separate digits. Any
  other string raises ValueError. The value is the exact real the literal denotes. The
  literals \<^verbatim>\<open>inf\<close>, \<^verbatim>\<open>infinity\<close> and \<^verbatim>\<open>nan\<close>, which Python accepts, denote no real number
  and are not accepted here; strings are byte strings, so only ASCII whitespace and ASCII
  digits are recognised.
\<close>

definition digit_of :: "char \<Rightarrow> nat option" where
  "digit_of c = map_of (zip ''0123456789'' [0 ..< 10]) c"

fun more_digits :: "string \<Rightarrow> nat list \<times> string" where
  "more_digits [] = ([], [])"
| "more_digits [c] =
     (case digit_of c of Some d \<Rightarrow> ([d], []) | None \<Rightarrow> ([], [c]))"
| "more_digits (c # c' # cs) =
     (case digit_of c of
        Some d \<Rightarrow> (let (ds, r) = more_digits (c' # cs) in (d # ds, r))
      | None \<Rightarrow>
          (if c = CHR ''_'' then
             (case digit_of c' of
                Some d \<Rightarrow> (let (ds, r) = more_digits cs in (d # ds, r))
              | None \<Rightarrow> ([], c # c' # cs))
           else ([], c # c' # cs)))"

definition digitpart :: "string \<Rightarrow> (nat list \<times> string) option" where
  "digitpart s =
     (case s of
        [] \<Rightarrow> None
      | c # cs \<Rightarrow>
          (case digit_of c of
             None \<Rightarrow> None
           | Some d \<Rightarrow> (let (ds, r) = more_digits cs in Some (d # ds, r))))"

definition digits_value :: "nat list \<Rightarrow> nat" where
  "digits_value ds = foldl (\<lambda>a d. 10 * a + d) 0 ds"

definition mantissa :: "string \<Rightarrow> (real \<times> string) option" where
  "mantissa s =
     (case digitpart s of
        Some (ip, r) \<Rightarrow>
          (case r of
             c # r' \<Rightarrow>
               (if c = CHR ''.'' then
                  (case digitpart r' of
                     Some (fp, r'') \<Rightarrow>
                       Some (real (digits_value ip) + real (digits_value fp) / 10 ^ length fp, r'')
                   | None \<Rightarrow> Some (real (digits_value ip), r'))
                else Some (real (digits_value ip), r))
           | [] \<Rightarrow> Some (real (digits_value ip), r))
      | None \<Rightarrow>
          (case s of
             c # r' \<Rightarrow>
               (if c = CHR ''.'' then
                  (case digitpart r' of
                     Some (fp, r'') \<Rightarrow> Some (real (digits_value fp) / 10 ^ length fp, r'')
                   | None \<Rightarrow> None)
                else None)
           | [] \<Rightarrow> None))"

definition exponent :: "string \<Rightarrow> real option" where
  "exponent s =
     (case s of
        [] \<Rightarrow> Some 1
      | c # r \<Rightarrow>
          (if c = CHR ''e'' \<or> c = CHR ''E'' then
             (case r of
                [] \<Rightarrow> None
              | sg # r' \<Rightarrow>
                  (if sg = CHR ''-'' then
                     (case digitpart r' of
                        Some (ds, []) \<Rightarrow> Some (1 / 10 ^ digits_value ds)
                      | _ \<Rightarrow> None)
                   else
                     (case digitpart (if sg = CHR ''+'' then r' else r) of
                        Some (ds, []) \<Rightarrow> Some (10 ^ digits_value ds)
                      | _ \<Rightarrow> None)))
           else None))"

definition floatnumber :: "string \<Rightarrow> real option" where
  "floatnumber s =
     (case mantissa s of
        None \<Rightarrow> None
      | Some (m, r) \<Rightarrow> (case exponent r of None \<Rightarrow> None | Some e \<Rightarrow> Some (m * e)))"

definition is_space :: "char \<Rightarrow> bool" where
  "is_space c = (c \<in> set [CHR '' '', CHR 0x09, CHR 0x0A, CHR 0x0B, CHR 0x0C, CHR 0x0D,
                     CHR 0x1C, CHR 0x1D, CHR 0x1E, CHR 0x1F])"

definition strip :: "string \<Rightarrow> string" where
  "strip s = rev (dropWhile is_space (rev (dropWhile is_space s)))"

definition py_float :: "string \<Rightarrow> py_error + real" where
  "py_float s =
     (case strip s of
        [] \<Rightarrow> Inl ValueError
      | c # r \<Rightarrow>
          (if c = CHR ''-'' then
             (case floatnumber r of None \<Rightarrow> Inl ValueError | Some x \<Rightarrow> Inr (- x))
           else
             (case floatnumber (if c = CHR ''+'' then r else c # r) of
                None \<Rightarrow> Inl ValueError
              | Some x \<Rightarrow> Inr x)))"

text \<open>
  The expression \<^verbatim>\<open>float(bet['recommendation'].split('(cote: ')[1].split(')')[0])\<close>:
  IndexError when the text has no \<^verbatim>\<open>(cote: \<close> segment, ValueError when what follows is
  not a number.
\<close>

definition extract_odds :: "string \<Rightarrow> py_error + real" where
  "extract_odds recommendation =
     (case py_split recommendation ''(cote: '' of
        _ # part # _ \<Rightarrow>
          (case py_split part '')'' of
             odds_str # _ \<Rightarrow> py_float odds_str
           | [] \<Rightarrow> Inl IndexError)
      | _ \<Rightarrow> Inl IndexError)"

section \<open>Combinations: data model\<close>

text \<open>
  A match analysis is a Python dictionary; the combination code reads the keys
  \<^verbatim>\<open>match\<close>, \<^verbatim>\<open>recommendation\<close>, \<^verbatim>\<open>confidence\<close> and \<^verbatim>\<open>value_bet\<close>, and writes the key
  \<^verbatim>\<open>_extracted_odds\<close>. \<open>None\<close> stands for an absent key: \<^verbatim>\<open>_extracted_odds\<close> is absent from
  a fresh analysis, and the analyses of the repository's test carry no \<^verbatim>\<open>value_bet\<close>.

  The dictionaries are objects shared between the caller's list and the lists the
  functions build from it (filtering, sorting and slicing copy references, not
  dictionaries). A list of analyses is therefore a list of references into a heap of
  records, and every function that can write to a dictionary returns the heap it leaves
  behind, also when it raises.
\<close>

record analysis =
  match :: string
  recommendation :: string
  confidence :: int
  value_bet :: "bool option"
  extracted_odds :: "real option"

type_synonym ref = nat

type_synonym heap = "ref \<Rightarrow> analysis"

record leg =
  leg_match :: string
  leg_bet :: string
  leg_confidence :: int

text \<open>
  The six combination labels of the source: the labels "Sur", "Value" and "Mixte" of
  \<^verbatim>\<open>generate_combinations\<close>, and the three values of the table \<^verbatim>\<open>combo_type_names\<close>.
  The labels themselves are display strings with accents and emoji.
\<close>

datatype combo_type =
  Combine_Sur | Combine_Value | Combine_Mixte | Combine_SAFE | Combine_MOYEN | Combine_HIGH_RISK

text \<open>
  \<^verbatim>\<open>potential_return\<close> is the amount \<^verbatim>\<open>round(total_odds * 10, 2)\<close> that the source formats
  into a display string.
\<close>

record combination =
  combo_type :: combo_type
  matches :: "leg list"
  total_odds :: real
  avg_confidence :: int
  potential_return :: real

section \<open>Python built-ins used by the combination code\<close>

text \<open>
  \<^verbatim>\<open>round(x)\<close> rounds to the nearest integer, a half to the even neighbour;
  \<^verbatim>\<open>round(x, 2)\<close> is modelled as the same rounding of the exact value at two decimals.
\<close>

definition py_round :: "real \<Rightarrow> int" where
  "py_round x =
     (let f = \<lfloor>x\<rfloor>; d = x - of_int f
      in if d < 1/2 then f else if d > 1/2 then f + 1 else if even f then f else f + 1)"

definition py_round2 :: "real \<Rightarrow> real" where
  "py_round2 x = of_int (py_round (x * 100)) / 100"

text \<open>
  \<^verbatim>\<open>sorted(xs, key=..., reverse=...)\<close> is stable, and stays stable with \<^verbatim>\<open>reverse=True\<close>:
  elements with equal keys keep their order. Descending order is the stable ascending
  sort on the negated key (\<open>neg\<close>). \<^verbatim>\<open>xs[:n]\<close> counts a negative \<^verbatim>\<open>n\<close> from the end.
\<close>

definition py_sorted :: "('a \<Rightarrow> 'k::linorder) \<Rightarrow> ('k \<Rightarrow> 'k) \<Rightarrow> bool \<Rightarrow> 'a list \<Rightarrow> 'a list" where
  "py_sorted key neg reverse xs = (if reverse then sort_key (\<lambda>x. neg (key x)) xs else sort_key key xs)"

definition py_slice_to :: "'a list \<Rightarrow> int \<Rightarrow> 'a list" where
  "py_slice_to xs n = (if n \<ge> 0 then take (nat n) xs else take (length xs - nat (- n)) xs)"

section \<open>Assembling a combination\<close>

text \<open>
  \<^verbatim>\<open>_create_combination\<close>: the loop multiplies the odds parsed from each recommendation
  text, sums the confidences and appends a leg; nothing catches a parse failure here.
  The mean \<^verbatim>\<open>total_confidence / len(bets)\<close> raises ZeroDivisionError on an empty list.
\<close>

definition leg_of :: "analysis \<Rightarrow> leg" where
  "leg_of bet = \<lparr>leg_match = match bet, leg_bet = recommendation bet, leg_confidence = confidence bet\<rparr>"

fun combine_loop :: "heap \<Rightarrow> ref list \<Rightarrow> real \<times> int \<times> leg list \<Rightarrow> py_error + real \<times> int \<times> leg list" where
  "combine_loop h [] acc = Inr acc"
| "combine_loop h (bet # bets) (odds_product, total_confidence, legs) =
     (case extract_odds (recommendation (h bet)) of
        Inl e \<Rightarrow> Inl e
      | Inr odds \<Rightarrow>
          combine_loop h bets
            (odds_product * odds, total_confidence + confidence (h bet), legs @ [leg_of (h bet)]))"

definition create_combination :: "heap \<Rightarrow> ref list \<Rightarrow> combo_type \<Rightarrow> py_error + combination" where
  "create_combination h bets ctype =
     (case combine_loop h bets (1, 0, []) of
        Inl e \<Rightarrow> Inl e
      | Inr (odds_product, total_confidence, legs) \<Rightarrow>
          if length bets = 0 then Inl ZeroDivisionError
          else Inr \<lparr>combo_type = ctype, matches = legs,
                    total_odds = py_round2 odds_product,
                    avg_confidence = py_round (of_int total_confidence / of_nat (length bets)),
                    potential_return = py_round2 (odds_product * 10)\<rparr>)"

section \<open>Generic combinations\<close>

text \<open>
  \<^verbatim>\<open>[bet for bet in good_bets if bet['value_bet']]\<close>: KeyError at the first analysis
  without the key.
\<close>

fun select_value_bets :: "heap \<Rightarrow> ref list \<Rightarrow> py_error + ref list" where
  "select_value_bets h [] = Inr []"
| "select_value_bets h (bet # bets) =
     (case value_bet (h bet) of
        None \<Rightarrow> Inl KeyError
      | Some v \<Rightarrow>
          (case select_value_bets h bets of
             Inl e \<Rightarrow> Inl e
           | Inr rest \<Rightarrow> Inr (if v then bet # rest else rest)))"

text \<open>
  \<^verbatim>\<open>generate_combinations\<close>. \<open>shuffle\<close> is the outcome of \<^verbatim>\<open>random.shuffle\<close> on the fresh
  list \<^verbatim>\<open>good_bets\<close>. The function writes to no dictionary, and returns the heap as it
  found it.
\<close>

definition generate_combinations ::
  "(ref list \<Rightarrow> ref list) \<Rightarrow> heap \<Rightarrow> ref list \<Rightarrow> int \<Rightarrow> (py_error + combination list) \<times> heap" where
  "generate_combinations shuffle h analyses combo_size =
     (if int (length analyses) < combo_size then (Inr [], h)
      else
        let good_bets = filter (\<lambda>a. confidence (h a) \<ge> 50) analyses
        in if int (length good_bets) < combo_size then (Inr [], h)
           else
             let safe_combo = py_slice_to (py_sorted (\<lambda>x. confidence (h x)) uminus True good_bets) combo_size
             in case create_combination h safe_combo Combine_Sur of
                  Inl e \<Rightarrow> (Inl e, h)
                | Inr safe \<Rightarrow>
                    (case select_value_bets h good_bets of
                       Inl e \<Rightarrow> (Inl e, h)
                     | Inr value_bets \<Rightarrow>
                         (case (if int (length value_bets) \<ge> combo_size
                                then map_sum id (\<lambda>c. [c])
                                       (create_combination h (py_slice_to value_bets combo_size) Combine_Value)
                                else Inr []) of
                            Inl e \<Rightarrow> (Inl e, h)
                          | Inr value \<Rightarrow>
                              (case (if int (length good_bets) \<ge> combo_size
                                     then map_sum id (\<lambda>c. [c])
                                            (create_combination h (py_slice_to (shuffle good_bets) combo_size) Combine_Mixte)
                                     else Inr []) of
                                 Inl e \<Rightarrow> (Inl e, h)
                               | Inr mixed \<Rightarrow> (Inr ([safe] @ value @ mixed), h)))))"

section \<open>Tiered combinations\<close>

record level_config =
  min_confidence :: int
  combo_size :: nat
  sort_by :: string
  desc :: bool

definition level_configs :: "string \<rightharpoonup> level_config" where
  "level_configs =
     [''SAFE'' \<mapsto> \<lparr>min_confidence = 75, combo_size = 3, sort_by = ''confidence'', desc = True\<rparr>,
      ''MOYEN'' \<mapsto> \<lparr>min_confidence = 60, combo_size = 4, sort_by = ''confidence'', desc = True\<rparr>,
      ''HIGH_RISK'' \<mapsto> \<lparr>min_confidence = 45, combo_size = 5, sort_by = ''odds'', desc = True\<rparr>]"

definition combo_type_names :: "string \<rightharpoonup> combo_type" where
  "combo_type_names =
     [''SAFE'' \<mapsto> Combine_SAFE, ''MOYEN'' \<mapsto> Combine_MOYEN, ''HIGH_RISK'' \<mapsto> Combine_HIGH_RISK]"

text \<open>
  The loop of the \<^verbatim>\<open>odds\<close> strategy: it stores the parsed odds, or 2.0 when parsing raises
  (the bare \<^verbatim>\<open>except:\<close>), under \<^verbatim>\<open>_extracted_odds\<close> in each dictionary, and appends the
  dictionary to \<^verbatim>\<open>selected_bets\<close> either way.
\<close>

fun extract_loop :: "heap \<Rightarrow> ref list \<Rightarrow> heap" where
  "extract_loop h [] = h"
| "extract_loop h (bet # bets) =
     extract_loop
       (h(bet := (h bet)\<lparr>extracted_odds :=
            Some (case extract_odds (recommendation (h bet)) of Inl e \<Rightarrow> 2.0 | Inr odds \<Rightarrow> odds)\<rparr>))
       bets"

definition sort_by_extracted_odds :: "heap \<Rightarrow> bool \<Rightarrow> ref list \<Rightarrow> py_error + ref list" where
  "sort_by_extracted_odds h reverse bets =
     (if list_all (\<lambda>b. extracted_odds (h b) \<noteq> None) bets
      then Inr (py_sorted (\<lambda>b. case extracted_odds (h b) of Some v \<Rightarrow> v | None \<Rightarrow> 0) uminus reverse bets)
      else Inl KeyError)"

text \<open>
  The steps of \<^verbatim>\<open>generate_specific_combination\<close>, in the order of the source:
  \<^verbatim>\<open>level_configs.get(level, level_configs["MOYEN"])\<close>; the filter on \<^verbatim>\<open>min_confidence\<close>
  with its fallback to the best \<^verbatim>\<open>combo_size\<close> analyses when fewer than 3 remain; and the
  sort by the level's strategy, which for \<^verbatim>\<open>odds\<close> first runs the loop above.
\<close>

definition level_config_of :: "string \<Rightarrow> level_config" where
  "level_config_of level =
     dict_get level_configs level
       \<lparr>min_confidence = 60, combo_size = 4, sort_by = ''confidence'', desc = True\<rparr>"

definition filter_level :: "heap \<Rightarrow> level_config \<Rightarrow> ref list \<Rightarrow> ref list" where
  "filter_level h config analyses =
     (let filtered_bets = filter (\<lambda>bet. confidence (h bet) \<ge> min_confidence config) analyses
      in if length filtered_bets < 3
         then take (combo_size config) (py_sorted (\<lambda>x. confidence (h x)) uminus True analyses)
         else filtered_bets)"

definition select_bets :: "heap \<Rightarrow> level_config \<Rightarrow> ref list \<Rightarrow> (py_error + ref list) \<times> heap" where
  "select_bets h config filtered_bets =
     (if sort_by config = ''confidence''
      then (Inr (py_sorted (\<lambda>x. confidence (h x)) uminus (desc config) filtered_bets), h)
      else (sort_by_extracted_odds (extract_loop h filtered_bets) (desc config) filtered_bets,
            extract_loop h filtered_bets))"

text \<open>
  \<^verbatim>\<open>generate_specific_combination\<close>. The result \<open>None\<close> is Python's \<^verbatim>\<open>None\<close>. The label
  \<^verbatim>\<open>combo_type_names[level]\<close> is looked up after the bets are selected and before
  \<^verbatim>\<open>_create_combination\<close> runs.
\<close>

definition generate_specific_combination ::
  "heap \<Rightarrow> ref list \<Rightarrow> string \<Rightarrow> (py_error + combination option) \<times> heap" where
  "generate_specific_combination h analyses level =
     (if length analyses < 3 then (Inr None, h)
      else
        let config = level_config_of level;
            (selected, h') = select_bets h config (filter_level h config analyses)
        in case selected of
             Inl e \<Rightarrow> (Inl e, h')
           | Inr selected_bets \<Rightarrow>
               let final_bets = take (min (combo_size config) (length selected_bets)) selected_bets
               in case dict_index combo_type_names level of
                    Inl e \<Rightarrow> (Inl e, h')
                  | Inr name \<Rightarrow>
                      (case create_combination h' final_bets name of
                         Inl e \<Rightarrow> (Inl e, h')
                       | Inr combo \<Rightarrow> (Inr (Some combo), h')))"

section \<open>Specification vocabulary and test data\<close>

text \<open>
  The notions the properties below are stated with, worded after the specification, and
  the concrete inputs on which they are evaluated.
\<close>

text \<open>The outcomes of an odds set that carry a quote, in the order the code visits them.\<close>

definition quoted :: "odds_dict \<Rightarrow> string list" where
  "quoted odds = filter (\<lambda>k. dict_get odds k 0 > 0) [''home'', ''away'', ''draw'']"

definition total_implied :: "odds_dict \<Rightarrow> real" where
  "total_implied odds = (\<Sum>k\<leftarrow>quoted odds. 1 / dict_get odds k 0)"

text \<open>An odds set with a quote on every outcome.\<close>

definition odds_example :: odds_dict where
  "odds_example = [''home'' \<mapsto> 2, ''away'' \<mapsto> 4, ''draw'' \<mapsto> 4]"

text \<open>
  The combined score as the specification words it, 0.6 * probability
  + 0.4 * max(0, probability * odds - 1), and the fixed order home, away, draw.
\<close>

definition score :: "odds_dict \<Rightarrow> probs_dict \<Rightarrow> string \<Rightarrow> real" where
  "score odds probs k =
     0.6 * probs_get probs k 0 + 0.4 * max 0 (probs_get probs k 0 * dict_get odds k 0 - 1)"

definition outcome_rank :: "string \<Rightarrow> nat" where
  "outcome_rank k = (if k = ''home'' then 0 else if k = ''away'' then 1 else 2)"

text \<open>The option \<^verbatim>\<open>_analyze_best_bet\<close> builds for outcome \<open>k\<close>.\<close>

definition option_for :: "odds_dict \<Rightarrow> probs_dict \<Rightarrow> string \<Rightarrow> string \<Rightarrow> string \<Rightarrow> bet_option" where
  "option_for odds probs home_team away_team k =
     make_option odds probs k
       (if k = ''home'' then home_team else if k = ''away'' then away_team else ''Match nul'')
       (if k = ''home'' then ''Victoire '' @ home_team
        else if k = ''away'' then ''Victoire '' @ away_team else ''Match nul'')"

text \<open>An equal-score fixture: home and away have the same odds and the same probability.\<close>

definition odds_tie :: odds_dict where
  "odds_tie = [''home'' \<mapsto> 2, ''away'' \<mapsto> 2, ''draw'' \<mapsto> 5]"

definition probs_tie :: probs_dict where
  "probs_tie = [(''home'', 2/5), (''away'', 2/5), (''draw'', 1/5)]"


text \<open>The sum of the bonuses and penalties, as the specification lists them.\<close>

definition adjustment :: "best_bet \<Rightarrow> bool \<Rightarrow> int" where
  "adjustment analysis is_value =
     (if is_value then 10 else 0)
     + (if recommended_odds analysis < 1.5 then 20 else 0)
     - (if recommended_odds analysis > 4.0 then 15 else 0)
     + (if value_score analysis > 0.1 then 15 else 0)
     - (if value_score analysis < - 0.1 then 10 else 0)"

text \<open>The extreme input of the specification: odds 100 at probability 0.99.\<close>

definition extreme_bet :: best_bet where
  "extreme_bet = \<lparr>bet_recommendation = ''Victoire A'', recommended_odds = 100,
     probability = 0.99, value_score = 98, bet_type = ''home''\<rparr>"

text \<open>The per-outcome threshold and the value-bet condition, as the specification words them.\<close>

definition value_threshold :: "string \<Rightarrow> real" where
  "value_threshold k = (if k = ''draw'' then 0.25 else 0.30)"

definition qualifies :: "analyzer \<Rightarrow> odds_dict \<Rightarrow> string \<times> real \<Rightarrow> bool" where
  "qualifies self odds kp =
     (fst kp \<in> {''home'', ''away'', ''draw''}
      \<and> (case odds (fst kp) of
            None \<Rightarrow> False
          | Some v \<Rightarrow> min_odds self \<le> v \<and> v \<le> max_odds self \<and> snd kp > value_threshold (fst kp)))"

text \<open>An odds set whose home odds lie inside the default band 1.5 to 5.0.\<close>

definition odds_even :: odds_dict where
  "odds_even = [''home'' \<mapsto> 2, ''away'' \<mapsto> 4, ''draw'' \<mapsto> 6]"

text \<open>The five analyses of \<^verbatim>\<open>tests/test_betting_analyzer.py\<close>, at references 0 to 4.\<close>

definition fixture :: heap where
  "fixture = (\<lambda>i.
     if i = 0 then \<lparr>match = ''A vs B'', recommendation = ''A wins (cote: 1.5)'', confidence = 80, value_bet = None, extracted_odds = None\<rparr>
     else if i = 1 then \<lparr>match = ''C vs D'', recommendation = ''C wins (cote: 1.8)'', confidence = 75, value_bet = None, extracted_odds = None\<rparr>
     else if i = 2 then \<lparr>match = ''E vs F'', recommendation = ''E wins (cote: 2.0)'', confidence = 70, value_bet = None, extracted_odds = None\<rparr>
     else if i = 3 then \<lparr>match = ''G vs H'', recommendation = ''G wins (cote: 1.9)'', confidence = 65, value_bet = None, extracted_odds = None\<rparr>
     else \<lparr>match = ''I vs J'', recommendation = ''I wins (cote: 1.7)'', confidence = 50, value_bet = None, extracted_odds = None\<rparr>)"

text \<open>The test's analyses with the confidences of the second and third lowered to 40 and 30.\<close>

definition thin_fixture :: heap where
  "thin_fixture = fixture(1 := (fixture 1)\<lparr>confidence := 40\<rparr>, 2 := (fixture 2)\<lparr>confidence := 30\<rparr>)"

text \<open>The test's analyses with a \<^verbatim>\<open>value_bet\<close> flag, set on the first three.\<close>

definition flagged_fixture :: heap where
  "flagged_fixture = (\<lambda>i. (fixture i)\<lparr>value_bet := Some (i < 3)\<rparr>)"

text \<open>
  Five analyses with the confidences of the test and odds whose product 13.2575625 is not
  a multiple of 0.01.
\<close>

definition priced_fixture :: heap where
  "priced_fixture = (\<lambda>i.
     if i = 0 then \<lparr>match = ''A vs B'', recommendation = ''Victoire A (cote: 1.85)'', confidence = 80, value_bet = Some True, extracted_odds = None\<rparr>
     else if i = 1 then \<lparr>match = ''C vs D'', recommendation = ''Victoire C (cote: 1.75)'', confidence = 75, value_bet = Some True, extracted_odds = None\<rparr>
     else if i = 2 then \<lparr>match = ''E vs F'', recommendation = ''Match nul (cote: 2.10)'', confidence = 70, value_bet = Some False, extracted_odds = None\<rparr>
     else if i = 3 then \<lparr>match = ''G vs H'', recommendation = ''Victoire H (cote: 1.95)'', confidence = 65, value_bet = Some True, extracted_odds = None\<rparr>
     else \<lparr>match = ''I vs J'', recommendation = ''Victoire I (cote: 1.70)'', confidence = 50, value_bet = Some False, extracted_odds = None\<rparr>)"


section \<open>Verified properties\<close>

subsection \<open>Implied probabilities\<close>

lemma raw_probabilities_eq:
  "raw_probabilities odds =
     (map (\<lambda>k. (k, 1 / dict_get odds k 0)) (quoted odds), total_implied odds)"
  by (simp add: raw_probabilities_def raw_block_def quoted_def total_implied_def)

lemma total_implied_pos:
  assumes "quoted odds \<noteq> []"
  shows "total_implied odds > 0"
proof -
  have "\<forall>k \<in> set (quoted odds). 0 < 1 / dict_get odds k 0"
    by (simp add: quoted_def)
  then show ?thesis
    using assms unfolding total_implied_def
    by (cases "quoted odds") (auto intro!: add_pos_nonneg sum_list_nonneg simp: less_imp_le)
qed

lemma calculate_probabilities_eq:
  assumes "quoted odds \<noteq> []"
  shows "calculate_probabilities odds =
           map (\<lambda>k. (k, (1 / dict_get odds k 0) / total_implied odds)) (quoted odds)"
  using total_implied_pos [OF assms]
  by (simp add: calculate_probabilities_def raw_probabilities_eq comp_def)

lemma sum_list_divide_const:
  fixes c :: real
  shows "(\<Sum>x\<leftarrow>xs. f x / c) = (\<Sum>x\<leftarrow>xs. f x) / c"
  by (induction xs) (simp_all add: add_divide_distrib)

text \<open>
  Claim C1. Whenever at least one of the outcomes home, away, draw has odds > 0, the
  probability map returned by \<^verbatim>\<open>_calculate_probabilities\<close> has as keys exactly the outcomes
  with odds > 0 (in the order home, away, draw), each entry is (1/odds) divided by the sum
  of 1/odds over those outcomes, and the entries sum to exactly 1.
\<close>

theorem calculate_probabilities_normalized:
  assumes "\<exists>k \<in> {''home'', ''away'', ''draw''}. dict_get odds k 0 > 0"
  shows "map fst (calculate_probabilities odds) = quoted odds
       \<and> set (map fst (calculate_probabilities odds)) =
           {k \<in> {''home'', ''away'', ''draw''}. dict_get odds k 0 > 0}
       \<and> (\<forall>(k, p) \<in> set (calculate_probabilities odds).
           p = (1 / dict_get odds k 0) / (\<Sum>j\<leftarrow>quoted odds. 1 / dict_get odds j 0))
       \<and> sum_list (map snd (calculate_probabilities odds)) = 1"
proof -
  from assms have ne: "quoted odds \<noteq> []"
    by (auto simp: quoted_def)
  note eq = calculate_probabilities_eq [OF ne]
  have keys: "map fst (calculate_probabilities odds) = quoted odds"
    by (simp add: eq comp_def)
  have keyset: "set (map fst (calculate_probabilities odds)) =
           {k \<in> {''home'', ''away'', ''draw''}. dict_get odds k 0 > 0}"
    unfolding keys by (auto simp: quoted_def)
  have entries: "\<forall>(k, p) \<in> set (calculate_probabilities odds).
           p = (1 / dict_get odds k 0) / (\<Sum>j\<leftarrow>quoted odds. 1 / dict_get odds j 0)"
    by (auto simp: eq total_implied_def)
  have "map snd (calculate_probabilities odds) =
          map (\<lambda>k. (1 / dict_get odds k 0) / total_implied odds) (quoted odds)"
    by (simp add: eq comp_def)
  then have "sum_list (map snd (calculate_probabilities odds)) =
          (\<Sum>k\<leftarrow>quoted odds. 1 / dict_get odds k 0) / total_implied odds"
    by (simp only: sum_list_divide_const)
  also have "\<dots> = total_implied odds / total_implied odds"
    by (simp only: total_implied_def)
  also have "\<dots> = 1"
    using total_implied_pos [OF ne] by simp
  finally have total: "sum_list (map snd (calculate_probabilities odds)) = 1" .
  from keys keyset entries total show ?thesis by blast
qed

theorem calculate_probabilities_normalized_witness:
  "(\<exists>k \<in> {''home'', ''away'', ''draw''}. dict_get odds_example k 0 > 0)
   \<and> calculate_probabilities odds_example = [(''home'', 1/2), (''away'', 1/4), (''draw'', 1/4)]
   \<and> sum_list (map snd (calculate_probabilities odds_example)) = 1"
proof -
  have h: "\<exists>k \<in> {''home'', ''away'', ''draw''}. dict_get odds_example k 0 > 0"
    by (simp add: odds_example_def dict_get_def)
  have v: "calculate_probabilities odds_example = [(''home'', 1/2), (''away'', 1/4), (''draw'', 1/4)]"
    by (simp add: calculate_probabilities_def raw_probabilities_def raw_block_def
        odds_example_def dict_get_def)
  from h v calculate_probabilities_normalized [OF h] show ?thesis by blast
qed

subsection \<open>Selecting the best bet\<close>

lemma py_max_key_first_max:
  fixes g :: "'a \<Rightarrow> nat"
  assumes "sorted_wrt (\<lambda>x y. g x < g y) (b # xs)"
  shows "py_max_key f b xs \<in> set (b # xs)
       \<and> (\<forall>x \<in> set (b # xs). f x \<le> f (py_max_key f b xs))
       \<and> (\<forall>x \<in> set (b # xs). f x = f (py_max_key f b xs) \<longrightarrow> g (py_max_key f b xs) \<le> g x)"
  using assms
proof (induction xs arbitrary: b)
  case Nil
  show ?case by simp
next
  case (Cons x xs)
  show ?case
  proof (cases "f x > f b")
    case True
    have "sorted_wrt (\<lambda>x y. g x < g y) (x # xs)" using Cons.prems by simp
    from Cons.IH [OF this] True show ?thesis by (simp add: less_imp_le)
  next
    case False
    have "sorted_wrt (\<lambda>x y. g x < g y) (b # xs)" using Cons.prems by simp
    from Cons.IH [OF this] have
      m: "py_max_key f b xs \<in> set (b # xs)"
      and u: "\<forall>y \<in> set (b # xs). f y \<le> f (py_max_key f b xs)"
      and t: "\<forall>y \<in> set (b # xs). f y = f (py_max_key f b xs) \<longrightarrow> g (py_max_key f b xs) \<le> g y"
      by blast+
    have gb: "g b < g x" using Cons.prems by simp
    have fb: "f b \<le> f (py_max_key f b xs)" using u by simp
    have "f x = f (py_max_key f b xs) \<longrightarrow> g (py_max_key f b xs) \<le> g x"
    proof
      assume "f x = f (py_max_key f b xs)"
      with False fb have "f b = f (py_max_key f b xs)" by simp
      with t have "g (py_max_key f b xs) \<le> g b" by simp
      with gb show "g (py_max_key f b xs) \<le> g x" by simp
    qed
    with m u t False fb show ?thesis by auto
  qed
qed

lemma build_options_quoted:
  "build_options odds probs home_team away_team =
     map (option_for odds probs home_team away_team) (quoted odds)"
  by (simp add: build_options_def quoted_def option_for_def)

lemma option_for_fields:
  "opt_type (option_for odds probs h a k) = k"
  "combined_score (option_for odds probs h a k) = score odds probs k"
  "opt_odds (option_for odds probs h a k) = dict_get odds k 0"
  "opt_probability (option_for odds probs h a k) = probs_get probs k 0"
  "opt_value_score (option_for odds probs h a k) = probs_get probs k 0 * dict_get odds k 0 - 1"
  by (simp_all add: option_for_def make_option_def score_def Let_def)

lemma quoted_ranked: "sorted_wrt (\<lambda>x y. outcome_rank x < outcome_rank y) (quoted odds)"
  by (simp add: quoted_def outcome_rank_def)

text \<open>
  Claim C2. When at least one outcome has odds > 0, \<^verbatim>\<open>_analyze_best_bet\<close> returns an
  outcome with odds > 0 whose combined score 0.6 * probability + 0.4 * max(0, value score)
  is maximal among the outcomes with odds > 0; every outcome with the same score comes no
  earlier in the order home, away, draw, so ties go to the earliest outcome. The returned
  odds, probability and value score are those of the selected outcome.
\<close>

theorem analyze_best_bet_selects_first_maximum:
  assumes "\<exists>k \<in> {''home'', ''away'', ''draw''}. dict_get odds k 0 > 0"
  shows "bet_type (analyze_best_bet odds probs home_team away_team) \<in> set (quoted odds)
       \<and> (\<forall>k \<in> set (quoted odds).
            score odds probs k \<le> score odds probs (bet_type (analyze_best_bet odds probs home_team away_team)))
       \<and> (\<forall>k \<in> set (quoted odds).
            score odds probs k = score odds probs (bet_type (analyze_best_bet odds probs home_team away_team))
            \<longrightarrow> outcome_rank (bet_type (analyze_best_bet odds probs home_team away_team)) \<le> outcome_rank k)
       \<and> recommended_odds (analyze_best_bet odds probs home_team away_team)
            = dict_get odds (bet_type (analyze_best_bet odds probs home_team away_team)) 0
       \<and> probability (analyze_best_bet odds probs home_team away_team)
            = probs_get probs (bet_type (analyze_best_bet odds probs home_team away_team)) 0
       \<and> value_score (analyze_best_bet odds probs home_team away_team)
            = probability (analyze_best_bet odds probs home_team away_team)
              * recommended_odds (analyze_best_bet odds probs home_team away_team) - 1"
proof -
  let ?mk = "option_for odds probs home_team away_team"
  from assms have "quoted odds \<noteq> []"
    by (auto simp: quoted_def)
  then obtain q qs where q: "quoted odds = q # qs"
    by (cases "quoted odds") simp_all
  define best where "best = py_max_key combined_score (?mk q) (map ?mk qs)"
  have res: "analyze_best_bet odds probs home_team away_team =
      \<lparr>bet_recommendation = opt_recommendation best, recommended_odds = opt_odds best,
       probability = opt_probability best, value_score = opt_value_score best,
       bet_type = opt_type best\<rparr>"
    by (simp add: analyze_best_bet_def build_options_quoted q best_def Let_def)
  have "sorted_wrt (\<lambda>x y. (outcome_rank \<circ> opt_type) x < (outcome_rank \<circ> opt_type) y)
          (map ?mk (quoted odds))"
    using quoted_ranked [of odds] by (simp add: sorted_wrt_map option_for_fields(1))
  then have srt: "sorted_wrt (\<lambda>x y. (outcome_rank \<circ> opt_type) x < (outcome_rank \<circ> opt_type) y)
          (?mk q # map ?mk qs)"
    by (simp only: q list.map)
  note mx = py_max_key_first_max [OF srt, of combined_score, folded best_def]
  from mx have m: "best \<in> set (?mk q # map ?mk qs)" by (rule conjunct1)
  from mx have u: "\<forall>x \<in> set (?mk q # map ?mk qs). combined_score x \<le> combined_score best"
    by blast
  from mx have t: "\<forall>x \<in> set (?mk q # map ?mk qs). combined_score x = combined_score best
              \<longrightarrow> (outcome_rank \<circ> opt_type) best \<le> (outcome_rank \<circ> opt_type) x"
    by blast
  have img: "set (?mk q # map ?mk qs) = ?mk ` set (quoted odds)"
    by (simp add: q)
  from m obtain kb where kb: "kb \<in> set (quoted odds)" and bkb: "best = ?mk kb"
    unfolding img by blast
  have c1: "bet_type (analyze_best_bet odds probs home_team away_team) = kb"
    by (simp add: res bkb option_for_fields)
  have c2: "\<forall>k \<in> set (quoted odds). score odds probs k \<le> score odds probs kb"
    using u unfolding img bkb by (simp add: option_for_fields)
  have c3: "\<forall>k \<in> set (quoted odds). score odds probs k = score odds probs kb
              \<longrightarrow> outcome_rank kb \<le> outcome_rank k"
    using t unfolding img bkb by (simp add: option_for_fields)
  have c4: "recommended_odds (analyze_best_bet odds probs home_team away_team) = dict_get odds kb 0"
    by (simp add: res bkb option_for_fields)
  have c5: "probability (analyze_best_bet odds probs home_team away_team) = probs_get probs kb 0"
    by (simp add: res bkb option_for_fields)
  have c6: "value_score (analyze_best_bet odds probs home_team away_team)
              = probs_get probs kb 0 * dict_get odds kb 0 - 1"
    by (simp add: res bkb option_for_fields)
  show ?thesis
    unfolding c1 c4 c5 c6 using kb c2 c3 by simp
qed

theorem analyze_best_bet_selects_first_maximum_witness:
  "(\<exists>k \<in> {''home'', ''away'', ''draw''}. dict_get odds_tie k 0 > 0)
   \<and> score odds_tie probs_tie ''home'' = score odds_tie probs_tie ''away''
   \<and> bet_type (analyze_best_bet odds_tie probs_tie ''A'' ''B'') = ''home''
   \<and> score odds_tie probs_tie ''draw''
          \<le> score odds_tie probs_tie (bet_type (analyze_best_bet odds_tie probs_tie ''A'' ''B''))"
proof -
  have h: "\<exists>k \<in> {''home'', ''away'', ''draw''}. dict_get odds_tie k 0 > 0"
    by (simp add: odds_tie_def dict_get_def)
  have tie: "score odds_tie probs_tie ''home'' = score odds_tie probs_tie ''away''"
    by (simp add: score_def odds_tie_def probs_tie_def dict_get_def probs_get_def)
  have sel: "bet_type (analyze_best_bet odds_tie probs_tie ''A'' ''B'') = ''home''"
    by (simp add: analyze_best_bet_def build_options_def make_option_def odds_tie_def
        probs_tie_def dict_get_def probs_get_def Let_def)
  have d: "''draw'' \<in> set (quoted odds_tie)"
    by (simp add: quoted_def odds_tie_def dict_get_def)
  from analyze_best_bet_selects_first_maximum [OF h, of probs_tie "''A''" "''B''"] h tie sel d
  show ?thesis by blast
qed

subsection \<open>The fallback recommendation\<close>




subsection \<open>Confidence\<close>

lemma py_int_add_nonneg:
  assumes "0 \<le> x" "0 \<le> x + of_int k"
  shows "py_int (x + of_int k) = py_int x + k"
  using assms by (simp add: py_int_def)

lemma clamp_py_int_add:
  assumes "0 \<le> x"
  shows "max 0 (min 100 (py_int (x + of_int k))) = max 0 (min 100 (py_int x + k))"
proof (cases "0 \<le> x + of_int k")
  case True
  then show ?thesis using assms by (simp add: py_int_add_nonneg)
next
  case False
  then have "x + of_int k < 0" by simp
  then have "\<lceil>x + of_int k\<rceil> \<le> 0" by (intro ceiling_le) simp
  with \<open>x + of_int k < 0\<close> have a: "py_int (x + of_int k) \<le> 0"
    by (simp only: py_int_def not_le [symmetric] if_False)
  have "of_int (\<lfloor>x\<rfloor> + k) \<le> x + of_int k" by simp
  with \<open>x + of_int k < 0\<close> have "of_int (\<lfloor>x\<rfloor> + k) < (0::real)" by linarith
  then have "\<lfloor>x\<rfloor> + k < 0" by linarith
  then have b: "py_int x + k \<le> 0" using assms by (simp add: py_int_def)
  from a b show ?thesis by simp
qed

lemma confidence_closed_form:
  "calculate_enhanced_confidence analysis odds is_value =
     max 0 (min 100 (py_int (probability analysis * 100 + of_int (adjustment analysis is_value))))"
  by (simp add: calculate_enhanced_confidence_def adjustment_def Let_def add.commute)

text \<open>
  Claim C3. For every selected bet and value-bet flag, \<^verbatim>\<open>_calculate_enhanced_confidence\<close>
  returns probability * 100, plus 10 for a value bet, plus 20 for recommended odds < 1.5,
  minus 15 for recommended odds > 4.0, plus 15 for a value score > 0.1, minus 10 for a
  value score < -0.1, truncated to an integer and clamped to [0, 100]; the result always
  lies in [0, 100]. For a probability that is not negative it makes no difference whether
  the integer adjustments are added before or after the truncation.
\<close>

theorem calculate_enhanced_confidence_clamped:
  "calculate_enhanced_confidence analysis odds is_value =
     max 0 (min 100 (py_int (probability analysis * 100 + of_int (adjustment analysis is_value))))
   \<and> 0 \<le> calculate_enhanced_confidence analysis odds is_value
   \<and> calculate_enhanced_confidence analysis odds is_value \<le> 100
   \<and> (0 \<le> probability analysis \<longrightarrow>
        calculate_enhanced_confidence analysis odds is_value =
          max 0 (min 100 (py_int (probability analysis * 100) + adjustment analysis is_value)))"
proof -
  have "0 \<le> probability analysis \<Longrightarrow> 0 \<le> probability analysis * 100" by simp
  then show ?thesis
    unfolding confidence_closed_form
    by (simp add: clamp_py_int_add)
qed

theorem calculate_enhanced_confidence_clamped_witness:
  "0 \<le> probability extreme_bet
   \<and> py_int (probability extreme_bet * 100) + adjustment extreme_bet True = 109
   \<and> calculate_enhanced_confidence extreme_bet Map.empty True = 100"
proof -
  have p: "0 \<le> probability extreme_bet" by (simp add: extreme_bet_def)
  have a: "py_int (probability extreme_bet * 100) + adjustment extreme_bet True = 109"
    by (simp add: extreme_bet_def py_int_def adjustment_def)
  from calculate_enhanced_confidence_clamped [of extreme_bet Map.empty True] p a
  show ?thesis by simp
qed

subsection \<open>Value bets\<close>

text \<open>
  Claim C5. For an odds set and a probability map over its outcomes, \<^verbatim>\<open>_is_value_bet\<close>
  returns true iff some outcome has odds within the closed band [min_odds, max_odds] and a
  probability strictly greater than its threshold (0.30 for home and away, 0.25 for draw).
\<close>

theorem is_value_bet_iff:
  assumes "\<forall>(k, p) \<in> set probs. k \<in> {''home'', ''away'', ''draw''} \<longrightarrow> odds k \<noteq> None"
  shows "is_value_bet self odds probs = Inr (\<exists>kp \<in> set probs. qualifies self odds kp)"
  using assms
proof (induction probs)
  case Nil
  show ?case by simp
next
  case (Cons kp rest)
  obtain k p where kp: "kp = (k, p)" by (cases kp)
  from Cons.prems have rest: "\<forall>(k, p) \<in> set rest. k \<in> {''home'', ''away'', ''draw''} \<longrightarrow> odds k \<noteq> None"
    by simp
  define Q where "Q = (\<exists>kp \<in> set rest. qualifies self odds kp)"
  have IH: "is_value_bet self odds rest = Inr Q"
    unfolding Q_def by (rule Cons.IH [OF rest])
  have ex: "(\<exists>kp \<in> set (kp # rest). qualifies self odds kp) = (qualifies self odds (k, p) \<or> Q)"
    by (simp add: Q_def kp)
  consider (home) "k = ''home''" | (away) "k = ''away''" | (draw) "k = ''draw''"
    | (other) "k \<notin> {''home'', ''away'', ''draw''}" by blast
  then show ?case
  proof cases
    case home
    with Cons.prems obtain v where v: "odds ''home'' = Some v" by (auto simp: kp)
    have "qualifies self odds (k, p) = (min_odds self \<le> v \<and> v \<le> max_odds self \<and> p > 0.3)"
      by (simp add: qualifies_def home v value_threshold_def)
    then show ?thesis
      unfolding ex by (simp add: kp home dict_index_def v IH) blast
  next
    case away
    with Cons.prems obtain v where v: "odds ''away'' = Some v" by (auto simp: kp)
    have "qualifies self odds (k, p) = (min_odds self \<le> v \<and> v \<le> max_odds self \<and> p > 0.3)"
      by (simp add: qualifies_def away v value_threshold_def)
    then show ?thesis
      unfolding ex by (simp add: kp away dict_index_def v IH) blast
  next
    case draw
    with Cons.prems obtain v where v: "odds ''draw'' = Some v" by (auto simp: kp)
    have "qualifies self odds (k, p) = (min_odds self \<le> v \<and> v \<le> max_odds self \<and> p > 0.25)"
      by (simp add: qualifies_def draw v value_threshold_def)
    then show ?thesis
      unfolding ex by (simp add: kp draw dict_index_def v IH) blast
  next
    case other
    then have "\<not> qualifies self odds (k, p)" by (simp add: qualifies_def)
    with other show ?thesis
      unfolding ex by (simp add: kp IH)
  qed
qed

theorem is_value_bet_iff_witness:
  "odds_even ''home'' \<noteq> None
   \<and> is_value_bet create_betting_analyzer odds_even [(''home'', 0.30)] = Inr False
   \<and> is_value_bet create_betting_analyzer odds_even [(''home'', 0.300001)] = Inr True"
proof -
  have h1: "\<forall>(k, p) \<in> set [(''home'', 0.30 :: real)]. k \<in> {''home'', ''away'', ''draw''} \<longrightarrow> odds_even k \<noteq> None"
    by (simp add: odds_even_def)
  have h2: "\<forall>(k, p) \<in> set [(''home'', 0.300001 :: real)]. k \<in> {''home'', ''away'', ''draw''} \<longrightarrow> odds_even k \<noteq> None"
    by (simp add: odds_even_def)
  have q1: "\<not> (\<exists>kp \<in> set [(''home'', 0.30 :: real)]. qualifies create_betting_analyzer odds_even kp)"
    by (simp add: qualifies_def odds_even_def value_threshold_def create_betting_analyzer_def)
  have q2: "\<exists>kp \<in> set [(''home'', 0.300001 :: real)]. qualifies create_betting_analyzer odds_even kp"
    by (simp add: qualifies_def odds_even_def value_threshold_def create_betting_analyzer_def)
  have h0: "odds_even ''home'' \<noteq> None"
    by (simp add: odds_even_def)
  from is_value_bet_iff [OF h1, of create_betting_analyzer] is_value_bet_iff [OF h2, of create_betting_analyzer]
    q1 q2 h0
  show ?thesis by simp
qed

subsection \<open>Properties of the combination builders\<close>

text \<open>
  Claim C7. For every list of analyses and every combo_size, if fewer than combo_size
  analyses have confidence \<ge> 50 (in particular when the list itself is shorter than
  combo_size), \<^verbatim>\<open>generate_combinations\<close> returns the empty list, whatever the shuffle; no
  combination is built and no dictionary is written.
\<close>

theorem generate_combinations_insufficient:
  fixes combo_size :: int
  assumes "int (length (filter (\<lambda>a. confidence (h a) \<ge> 50) analyses)) < combo_size"
  shows "generate_combinations shuffle h analyses combo_size = (Inr [], h)"
  using assms by (simp add: generate_combinations_def Let_def)

theorem generate_combinations_insufficient_witness:
  "int (length (filter (\<lambda>a. confidence (thin_fixture a) \<ge> 50) [0, 1, 2])) < 3
   \<and> generate_combinations id thin_fixture [0, 1, 2] 3 = (Inr [], thin_fixture)"
proof -
  have h: "int (length (filter (\<lambda>a. confidence (thin_fixture a) \<ge> 50) [0, 1, 2])) < 3"
    by (simp add: thin_fixture_def fixture_def)
  from generate_combinations_insufficient [OF h, of id] h show ?thesis by simp
qed

text \<open>
  Claim C10. For every level string outside SAFE, MOYEN, HIGH_RISK and every list of at
  least 3 analyses, \<^verbatim>\<open>generate_specific_combination\<close> returns no result: the configuration
  lookup falls back to MOYEN, and the lookup of the label in the three-key table raises
  KeyError. No dictionary is written on the way.
\<close>

theorem generate_specific_combination_unknown_level:
  assumes "level \<notin> {''SAFE'', ''MOYEN'', ''HIGH_RISK''}" and "length analyses \<ge> 3"
  shows "generate_specific_combination h analyses level = (Inl KeyError, h)"
proof -
  have c: "level_configs level = None" and n: "combo_type_names level = None"
    using assms(1) by (simp_all add: level_configs_def combo_type_names_def)
  show ?thesis
    using assms(2)
    by (simp add: generate_specific_combination_def level_config_of_def select_bets_def
        dict_get_def dict_index_def c n Let_def)
qed

theorem generate_specific_combination_unknown_level_witness:
  "''FOO'' \<notin> {''SAFE'', ''MOYEN'', ''HIGH_RISK''} \<and> length [0, 1, 2, 3, 4 :: nat] \<ge> 3
   \<and> generate_specific_combination fixture [0, 1, 2, 3, 4] ''FOO'' = (Inl KeyError, fixture)"
proof -
  have a: "''FOO'' \<notin> {''SAFE'', ''MOYEN'', ''HIGH_RISK''}" by simp
  have b: "length [0, 1, 2, 3, 4 :: nat] \<ge> 3" by simp
  from generate_specific_combination_unknown_level [OF a b, of fixture] a b show ?thesis by simp
qed

text \<open>
  The loop of the \<^verbatim>\<open>odds\<close> strategy: each dictionary it visits gets the parsed odds, or 2.0
  when parsing raises, under \<^verbatim>\<open>_extracted_odds\<close>; no other key and no other dictionary
  changes.
\<close>

lemma extract_loop_effect:
  "extract_loop h bets a =
     (if a \<in> set bets
      then (h a)\<lparr>extracted_odds :=
             Some (case extract_odds (recommendation (h a)) of Inl e \<Rightarrow> 2.0 | Inr odds \<Rightarrow> odds)\<rparr>
      else h a)"
proof (induction bets arbitrary: h)
  case Nil
  show ?case by simp
next
  case (Cons b bets)
  show ?case
    by (simp add: Cons.IH)
qed

lemma select_bets_heap:
  "snd (select_bets h config bets) =
     (if sort_by config = ''confidence'' then h else extract_loop h bets)"
  by (simp add: select_bets_def)

lemma generate_specific_combination_heap:
  "snd (generate_specific_combination h analyses level) =
     (if length analyses < 3 then h
      else snd (select_bets h (level_config_of level)
                  (filter_level h (level_config_of level) analyses)))"
  by (simp add: generate_specific_combination_def Let_def split_beta split: sum.splits)

lemma sort_by_of_level:
  "level \<noteq> ''HIGH_RISK'' \<Longrightarrow> sort_by (level_config_of level) = ''confidence''"
  by (simp add: level_config_of_def level_configs_def dict_get_def)

lemma sort_by_HIGH_RISK: "sort_by (level_config_of ''HIGH_RISK'') = ''odds''"
  by (simp add: level_config_of_def level_configs_def dict_get_def)

text \<open>
  Claim C9, amended. \<^verbatim>\<open>generate_combinations\<close> leaves every analysis record unchanged, and
  so does \<^verbatim>\<open>generate_specific_combination\<close> at every level other than HIGH_RISK and on
  fewer than 3 analyses. At level HIGH_RISK with at least 3 analyses,
  \<^verbatim>\<open>generate_specific_combination\<close> sets \<^verbatim>\<open>_extracted_odds\<close> to the odds parsed from the
  recommendation text, or to 2.0 when the text does not parse, on exactly the records it
  sorts (those the filter of the level keeps: confidence at least 45, or the five most
  confident when fewer than 3 reach 45); it changes no other key of these records and
  leaves every other record unchanged.
\<close>

theorem combinations_frame:
  fixes n :: int
  shows "snd (generate_combinations shuffle h analyses n) = h
   \<and> (level \<noteq> ''HIGH_RISK'' \<or> length analyses < 3 \<longrightarrow>
        snd (generate_specific_combination h analyses level) = h)
   \<and> (level = ''HIGH_RISK'' \<and> 3 \<le> length analyses \<longrightarrow>
        (\<forall>a. snd (generate_specific_combination h analyses level) a =
           (if a \<in> set (filter_level h (level_config_of ''HIGH_RISK'') analyses)
            then (h a)\<lparr>extracted_odds :=
                   Some (case extract_odds (recommendation (h a)) of
                           Inl e \<Rightarrow> 2.0 | Inr odds \<Rightarrow> odds)\<rparr>
            else h a)))"
proof -
  have g: "snd (generate_combinations shuffle h analyses n) = h"
    by (simp add: generate_combinations_def Let_def split: sum.splits)
  have s: "level \<noteq> ''HIGH_RISK'' \<or> length analyses < 3 \<longrightarrow>
        snd (generate_specific_combination h analyses level) = h"
    by (auto simp: generate_specific_combination_heap select_bets_heap sort_by_of_level)
  have f: "level = ''HIGH_RISK'' \<and> 3 \<le> length analyses \<longrightarrow>
        (\<forall>a. snd (generate_specific_combination h analyses level) a =
           (if a \<in> set (filter_level h (level_config_of ''HIGH_RISK'') analyses)
            then (h a)\<lparr>extracted_odds :=
                   Some (case extract_odds (recommendation (h a)) of
                           Inl e \<Rightarrow> 2.0 | Inr odds \<Rightarrow> odds)\<rparr>
            else h a))"
    by (simp add: generate_specific_combination_heap select_bets_heap sort_by_HIGH_RISK
        extract_loop_effect)
  from g s f show ?thesis by (intro conjI)
qed

text \<open>
  On the flagged analyses \<^verbatim>\<open>generate_combinations\<close> builds its three combinations and
  MOYEN its one, and the records stay as they were. On the analyses with confidences
  80, 40, 30, 65, 50, HIGH_RISK sorts the first, fourth and fifth: the first gets
  \<^verbatim>\<open>_extracted_odds = 1.5\<close>, the second stays as it was.
\<close>

theorem combinations_frame_witness:
  "''MOYEN'' \<noteq> ''HIGH_RISK''
   \<and> snd (generate_specific_combination flagged_fixture [0, 1, 2, 3, 4] ''MOYEN'') = flagged_fixture
   \<and> map_sum id (map combo_type) (fst (generate_combinations id flagged_fixture [0, 1, 2, 3, 4] 3))
       = Inr [Combine_Sur, Combine_Value, Combine_Mixte]
   \<and> snd (generate_combinations id flagged_fixture [0, 1, 2, 3, 4] 3) = flagged_fixture
   \<and> 3 \<le> length [0, 1, 2, 3, 4 :: nat]
   \<and> filter_level thin_fixture (level_config_of ''HIGH_RISK'') [0, 1, 2, 3, 4] = [0, 3, 4]
   \<and> snd (generate_specific_combination thin_fixture [0, 1, 2, 3, 4] ''HIGH_RISK'') 0
       = (thin_fixture 0)\<lparr>extracted_odds := Some 1.5\<rparr>
   \<and> snd (generate_specific_combination thin_fixture [0, 1, 2, 3, 4] ''HIGH_RISK'') 1
       = thin_fixture 1"
proof -
  have a: "''MOYEN'' \<noteq> ''HIGH_RISK'' \<or> length [0, 1, 2, 3, 4 :: nat] < 3" by simp
  have b: "''HIGH_RISK'' = ''HIGH_RISK'' \<and> 3 \<le> length [0, 1, 2, 3, 4 :: nat]" by simp
  have c: "map_sum id (map combo_type) (fst (generate_combinations id flagged_fixture [0, 1, 2, 3, 4] 3))
       = Inr [Combine_Sur, Combine_Value, Combine_Mixte]"
    by code_simp
  have m: "filter_level thin_fixture (level_config_of ''HIGH_RISK'') [0, 1, 2, 3, 4] = [0, 3, 4]"
    by code_simp
  have x: "extract_odds (recommendation (thin_fixture 0)) = Inr 1.5"
    by code_simp
  note t1 = combinations_frame [of id flagged_fixture "[0, 1, 2, 3, 4]" 3 "''MOYEN''"]
  note t2 = combinations_frame [of id thin_fixture "[0, 1, 2, 3, 4]" 3 "''HIGH_RISK''"]
  from t1 a have p1: "snd (generate_specific_combination flagged_fixture [0, 1, 2, 3, 4] ''MOYEN'') = flagged_fixture"
    and p2: "snd (generate_combinations id flagged_fixture [0, 1, 2, 3, 4] 3) = flagged_fixture"
    by blast+
  from t2 b have all: "\<forall>a. snd (generate_specific_combination thin_fixture [0, 1, 2, 3, 4] ''HIGH_RISK'') a =
      (if a \<in> set (filter_level thin_fixture (level_config_of ''HIGH_RISK'') [0, 1, 2, 3, 4])
       then (thin_fixture a)\<lparr>extracted_odds :=
              Some (case extract_odds (recommendation (thin_fixture a)) of
                      Inl e \<Rightarrow> 2.0 | Inr odds \<Rightarrow> odds)\<rparr>
       else thin_fixture a)"
    by blast
  have p3: "snd (generate_specific_combination thin_fixture [0, 1, 2, 3, 4] ''HIGH_RISK'') 0
       = (thin_fixture 0)\<lparr>extracted_odds := Some 1.5\<rparr>"
    using all [rule_format, of 0] unfolding m x by simp
  have p4: "snd (generate_specific_combination thin_fixture [0, 1, 2, 3, 4] ''HIGH_RISK'') 1
       = thin_fixture 1"
    using all [rule_format, of 1] unfolding m by simp
  have a': "''MOYEN'' \<noteq> ''HIGH_RISK''" by simp
  have l: "3 \<le> length [0, 1, 2, 3, 4 :: nat]" by simp
  from a' p1 c p2 l m p3 p4 show ?thesis by (intro conjI)
qed

text \<open>
  At level HIGH_RISK the first analysis of the test, which has no \<^verbatim>\<open>_extracted_odds\<close> key
  before the call, carries \<^verbatim>\<open>_extracted_odds = 1.5\<close> after it.
\<close>

theorem combinations_frame_counterexample:
  "extracted_odds (fixture 0) = None
   \<and> extracted_odds (snd (generate_specific_combination fixture [0, 1, 2, 3, 4] ''HIGH_RISK'') 0)
       = Some 1.5
   \<and> snd (generate_specific_combination fixture [0, 1, 2, 3, 4] ''HIGH_RISK'') 0 \<noteq> fixture 0"
  by code_simp


lemma level_config_of_MOYEN:
  "level_config_of ''MOYEN'' =
     \<lparr>min_confidence = 60, combo_size = 4, sort_by = ''confidence'', desc = True\<rparr>"
  by (simp add: level_config_of_def level_configs_def dict_get_def)

lemma py_round_mean_moyen: "py_round ((80 + 75 + 70 + 65) / 4) = 72"
  by (simp add: py_round_def Let_def)

text \<open>
  Rounding, stated without the rounding functions: \<^verbatim>\<open>round(x)\<close> is an integer within 1/2
  of \<open>x\<close>, and \<^verbatim>\<open>round(x, 2)\<close> is a multiple of 0.01 within 0.005 of \<open>x\<close>.
\<close>

lemma py_round_near: "\<bar>of_int (py_round x) - x\<bar> \<le> 1 / 2"
proof -
  have "of_int \<lfloor>x\<rfloor> \<le> x" "x < of_int \<lfloor>x\<rfloor> + 1" by linarith+
  then show ?thesis
    by (auto simp: py_round_def Let_def)
qed

lemma py_round2_near: "\<bar>py_round2 x - x\<bar> \<le> 1 / 200"
proof -
  have "\<bar>of_int (py_round (x * 100)) - x * 100\<bar> \<le> 1 / 2" by (rule py_round_near)
  then show ?thesis by (simp add: py_round2_def abs_le_iff field_simps)
qed

lemma py_round2_grid: "py_round2 x * 100 = of_int (py_round (x * 100))"
  by (simp add: py_round2_def)

text \<open>
  Sorting any arrangement of four analyses with confidences 80, 75, 70, 65 by confidence,
  descending, puts them in that order.
\<close>

lemma sort_desc_distinct_confidences:
  assumes mF: "mset F = mset [a1, a2, a3, a4]"
    and c: "confidence (h a1) = 80" "confidence (h a2) = 75" "confidence (h a3) = 70"
           "confidence (h a4) = 65"
  shows "sort_key (\<lambda>x. - confidence (h x)) F = [a1, a2, a3, a4]"
proof (rule properties_for_sort_key)
  show "mset [a1, a2, a3, a4] = mset F" using mF by simp
  show "sorted (map (\<lambda>x. - confidence (h x)) [a1, a2, a3, a4])" by (simp add: c)
  fix k assume k: "k \<in> set [a1, a2, a3, a4]"
  let ?Q = "\<lambda>x. - confidence (h k) = - confidence (h x)"
  have one: "filter ?Q [a1, a2, a3, a4] = [k]"
    using k by (auto simp: c)
  have "mset (filter ?Q F) = mset (filter ?Q [a1, a2, a3, a4])"
    by (simp only: mset_filter mF)
  then have "mset (filter ?Q F) = {#k#}" by (simp only: one mset.simps)
  then have "filter ?Q F = [k]" by (simp only: mset_single_iff)
  with one show "filter ?Q [a1, a2, a3, a4] = filter ?Q F" by simp
qed

text \<open>
  Claim C6. For every list of five analyses whose confidences are 80, 75, 70, 65 and 50, in
  any order, the four with confidence at least 60 having a parseable \<^verbatim>\<open>(cote: X)\<close>
  recommendation, \<^verbatim>\<open>generate_specific_combination\<close> at tier MOYEN keeps exactly the four
  analyses with confidence at least 60 in its filter and returns a combination of exactly
  these four, ordered by confidence descending (80, 75, 70, 65). Its total odds are the
  product of the four parsed odds rounded to two decimals: a multiple of 0.01 within 0.005
  of the product. Its average confidence is the mean 72.5 of the four confidences rounded
  to an integer, which Python's \<^verbatim>\<open>round\<close> makes 72. The analyses are left as they were.
\<close>

theorem generate_specific_combination_moyen:
  assumes perm: "mset analyses = mset [a1, a2, a3, a4, a5]"
    and conf: "map (\<lambda>a. confidence (h a)) [a1, a2, a3, a4, a5] = [80, 75, 70, 65, 50]"
    and x1: "extract_odds (recommendation (h a1)) = Inr x1"
    and x2: "extract_odds (recommendation (h a2)) = Inr x2"
    and x3: "extract_odds (recommendation (h a3)) = Inr x3"
    and x4: "extract_odds (recommendation (h a4)) = Inr x4"
  shows "generate_specific_combination h analyses ''MOYEN'' =
           (Inr (Some \<lparr>combo_type = Combine_MOYEN,
                       matches = map (\<lambda>a. leg_of (h a)) [a1, a2, a3, a4],
                       total_odds = py_round2 (x1 * x2 * x3 * x4),
                       avg_confidence = py_round ((80 + 75 + 70 + 65) / 4),
                       potential_return = py_round2 (x1 * x2 * x3 * x4 * 10)\<rparr>), h)
       \<and> mset (filter_level h (level_config_of ''MOYEN'') analyses) = mset [a1, a2, a3, a4]
       \<and> map (\<lambda>a. leg_confidence (leg_of (h a))) [a1, a2, a3, a4] = [80, 75, 70, 65]
       \<and> (\<exists>n :: int. py_round2 (x1 * x2 * x3 * x4) * 100 = of_int n)
       \<and> \<bar>py_round2 (x1 * x2 * x3 * x4) - x1 * x2 * x3 * x4\<bar> \<le> 1 / 200
       \<and> py_round ((80 + 75 + 70 + 65) / 4) = 72"
proof -
  from conf have c: "confidence (h a1) = 80" "confidence (h a2) = 75" "confidence (h a3) = 70"
    "confidence (h a4) = 65" "confidence (h a5) = 50" by simp_all
  let ?cfg = "\<lparr>min_confidence = 60, combo_size = 4, sort_by = ''confidence'', desc = True\<rparr>"
  define F where "F = filter (\<lambda>bet. 60 \<le> confidence (h bet)) analyses"
  have len: "length analyses = 5"
    using mset_eq_length [OF perm] by simp
  have mF: "mset F = mset [a1, a2, a3, a4]"
    unfolding F_def by (simp add: perm c)
  have lenF: "length F = 4"
    using mset_eq_length [OF mF] by simp
  have flt: "filter_level h ?cfg analyses = F"
    using lenF by (simp add: filter_level_def F_def [symmetric])
  have srt: "py_sorted (\<lambda>x. confidence (h x)) uminus True F = [a1, a2, a3, a4]"
    unfolding py_sorted_def using sort_desc_distinct_confidences [OF mF c(1-4)] by simp
  have sel: "select_bets h ?cfg F = (Inr [a1, a2, a3, a4], h)"
    by (simp add: select_bets_def srt)
  have crt: "create_combination h [a1, a2, a3, a4] Combine_MOYEN =
      Inr \<lparr>combo_type = Combine_MOYEN,
           matches = map (\<lambda>a. leg_of (h a)) [a1, a2, a3, a4],
           total_odds = py_round2 (x1 * x2 * x3 * x4),
           avg_confidence = py_round ((80 + 75 + 70 + 65) / 4),
           potential_return = py_round2 (x1 * x2 * x3 * x4 * 10)\<rparr>"
    by (simp add: create_combination_def x1 x2 x3 x4 c)
  have nm: "dict_index combo_type_names ''MOYEN'' = Inr Combine_MOYEN"
    by (simp add: dict_index_def combo_type_names_def)
  have main: "generate_specific_combination h analyses ''MOYEN'' =
           (Inr (Some \<lparr>combo_type = Combine_MOYEN,
                       matches = map (\<lambda>a. leg_of (h a)) [a1, a2, a3, a4],
                       total_odds = py_round2 (x1 * x2 * x3 * x4),
                       avg_confidence = py_round ((80 + 75 + 70 + 65) / 4),
                       potential_return = py_round2 (x1 * x2 * x3 * x4 * 10)\<rparr>), h)"
    by (simp add: generate_specific_combination_def level_config_of_MOYEN len flt sel nm crt
        del: list.map)
  have kept: "mset (filter_level h (level_config_of ''MOYEN'') analyses) = mset [a1, a2, a3, a4]"
    by (simp only: level_config_of_MOYEN flt mF)
  have confs: "map (\<lambda>a. leg_confidence (leg_of (h a))) [a1, a2, a3, a4] = [80, 75, 70, 65]"
    by (simp add: leg_of_def c)
  have grid: "\<exists>n :: int. py_round2 (x1 * x2 * x3 * x4) * 100 = of_int n"
    using py_round2_grid by blast
  from main kept confs grid py_round2_near py_round_mean_moyen show ?thesis by (intro conjI)
qed

text \<open>
  The priced analyses in the order 50, 70, 80, 65, 75: the filter drops the fifth record,
  the sort reorders the rest, and the product 13.2575625 is rounded to 13.26.
\<close>

theorem generate_specific_combination_moyen_witness:
  "mset [4, 2, 0, 3, 1 :: nat] = mset [0, 1, 2, 3, 4]
   \<and> map (\<lambda>a. confidence (priced_fixture a)) [0, 1, 2, 3, 4] = [80, 75, 70, 65, 50]
   \<and> extract_odds (recommendation (priced_fixture 0)) = Inr 1.85
   \<and> extract_odds (recommendation (priced_fixture 1)) = Inr 1.75
   \<and> extract_odds (recommendation (priced_fixture 2)) = Inr 2.10
   \<and> extract_odds (recommendation (priced_fixture 3)) = Inr 1.95
   \<and> (1.85 * 1.75 * 2.10 * 1.95 :: real) = 13.2575625
   \<and> filter_level priced_fixture (level_config_of ''MOYEN'') [4, 2, 0, 3, 1] = [2, 0, 3, 1]
   \<and> fst (generate_specific_combination priced_fixture [4, 2, 0, 3, 1] ''MOYEN'') =
        Inr (Some \<lparr>combo_type = Combine_MOYEN,
                    matches = map (\<lambda>a. leg_of (priced_fixture a)) [0, 1, 2, 3],
                    total_odds = 13.26, avg_confidence = 72, potential_return = 132.58\<rparr>)"
proof -
  have perm: "mset [4, 2, 0, 3, 1 :: nat] = mset [0, 1, 2, 3, 4]" by simp
  have conf: "map (\<lambda>a. confidence (priced_fixture a)) [0, 1, 2, 3, 4] = [80, 75, 70, 65, 50]"
    by (simp add: priced_fixture_def)
  have x1: "extract_odds (recommendation (priced_fixture 0)) = Inr 1.85" by code_simp
  have x2: "extract_odds (recommendation (priced_fixture 1)) = Inr 1.75" by code_simp
  have x3: "extract_odds (recommendation (priced_fixture 2)) = Inr 2.10" by code_simp
  have x4: "extract_odds (recommendation (priced_fixture 3)) = Inr 1.95" by code_simp
  have p: "(1.85 * 1.75 * 2.10 * 1.95 :: real) = 13.2575625" by simp
  have f: "filter_level priced_fixture (level_config_of ''MOYEN'') [4, 2, 0, 3, 1] = [2, 0, 3, 1]"
    by code_simp
  have r1: "py_round2 (1.85 * 1.75 * 2.10 * 1.95) = 13.26"
    by (simp add: py_round2_def py_round_def Let_def)
  have r2: "py_round2 (1.85 * 1.75 * 2.10 * 1.95 * 10) = 132.58"
    by (simp add: py_round2_def py_round_def Let_def)
  from generate_specific_combination_moyen [OF perm conf x1 x2 x3 x4]
  have "fst (generate_specific_combination priced_fixture [4, 2, 0, 3, 1] ''MOYEN'') =
        Inr (Some \<lparr>combo_type = Combine_MOYEN,
                    matches = map (\<lambda>a. leg_of (priced_fixture a)) [0, 1, 2, 3],
                    total_odds = 13.26, avg_confidence = 72, potential_return = 132.58\<rparr>)"
    by (simp only: r1 r2 fst_conv)
  with perm conf x1 x2 x3 x4 p f show ?thesis by (intro conjI)
qed

end
